theory Spec2Isabelle
  imports Complex_Main
begin

section \<open>Canary integration: shallow embedding of camera.py and sensor.py\<close>

text \<open>
  The development embeds the two platform modules of the Canary integration,
  \<^verbatim>\<open>homeassistant/components/canary/sensor.py\<close> and
  \<^verbatim>\<open>homeassistant/components/canary/camera.py\<close>.
  Python objects become records, dictionaries become maps (association lists where
  the code iterates them), exceptions become values of \<open>py_error\<close>, and in-place
  mutation of \<^verbatim>\<open>self\<close> becomes explicit state passing.
\<close>

subsection \<open>Python values and exceptions\<close>

datatype py_error =
  KeyError | IndexError | AttributeError | VendorError | FfmpegError | StreamError

text \<open>
  \<open>KeyError\<close> and \<open>IndexError\<close> are raised by subscripting, \<open>AttributeError\<close> by
  an attribute read on \<^verbatim>\<open>None\<close>. \<open>VendorError\<close> stands for whatever exception the
  vendor client raises while a live-stream session is renewed, \<open>FfmpegError\<close> for
  an exception of the still-image extraction, and \<open>StreamError\<close> for one that the
  transcoding helper or the stream proxy raises into the MJPEG handler.
\<close>

type_synonym bytes = "char list"
type_synonym datetime = int

text \<open>Truthiness of an optional string or byte string: neither \<^verbatim>\<open>None\<close> nor empty.\<close>

definition truthy :: "'a list option \<Rightarrow> bool" where
  "truthy v = (case v of None \<Rightarrow> False | Some xs \<Rightarrow> xs \<noteq> [])"

text \<open>
  \<^verbatim>\<open>round(x, ndigits)\<close> on a float: the value is rounded to the nearest multiple of
  \<open>10 ^ -ndigits\<close>, an exact tie going to the even neighbour. Floats are modelled by
  the real numbers they denote (finite values, no NaN).
\<close>

definition py_round :: "real \<Rightarrow> nat \<Rightarrow> real" where
  "py_round x ndigits =
     (let y = x * 10 ^ ndigits;
          f = \<lfloor>y\<rfloor>;
          d = y - of_int f
      in (if d < 1 / 2 then of_int f
          else if 1 / 2 < d then of_int (f + 1)
          else if even f then of_int f
          else of_int (f + 1)) / 10 ^ ndigits)"

text \<open>\<^verbatim>\<open>next(iterator, None)\<close>: the first element produced, or \<^verbatim>\<open>None\<close>.\<close>

definition next_or_None :: "'a list \<Rightarrow> 'a option" where
  "next_or_None xs = (case xs of [] \<Rightarrow> None | x # _ \<Rightarrow> Some x)"

subsection \<open>The vendor model (\<^verbatim>\<open>canary.model\<close>) and the coordinator snapshot\<close>

datatype SensorType =
  AIR_QUALITY | TEMPERATURE | HUMIDITY | WIFI | BATTERY
  | DATE_LAST_ENTRY | ENTRIES_CAPTURED_TODAY

record Thumbnail =
  image_url :: string

record Entry =
  entry_id :: int
  start_time :: datetime
  thumbnails :: "Thumbnail list"

record Reading =
  sensor_type :: SensorType
  reading_value :: real

text \<open>
  \<^verbatim>\<open>device.device_type\<close> is a dictionary; the code reads its key \<^verbatim>\<open>"name"\<close> with
  \<^verbatim>\<open>.get("name")\<close> in one place and with \<^verbatim>\<open>["name"]\<close> in the constructors.
\<close>

record Device =
  device_id :: int
  name :: string
  is_online :: bool
  device_type :: "(string \<times> string) list"

record Location =
  location_name :: string
  is_recording :: bool
  devices :: "Device list"

text \<open>
  \<^verbatim>\<open>coordinator.data\<close>: the three dictionaries of the snapshot. \<open>locations\<close> is
  iterated by the setup functions, so it keeps its insertion order.
\<close>

record Snapshot =
  locations :: "(string \<times> Location) list"
  entries :: "int \<rightharpoonup> Entry list"
  readings :: "int \<rightharpoonup> Reading list"

record DeviceInfo =
  info_model :: string
  info_name :: string

subsection \<open>sensor.py\<close>

datatype unit_of_measurement = TEMP_CELSIUS | PERCENTAGE | SIGNAL_STRENGTH_DECIBELS_MILLIWATT

datatype SensorDeviceClass =
  DEVICE_CLASS_TEMPERATURE | DEVICE_CLASS_HUMIDITY | DEVICE_CLASS_SIGNAL_STRENGTH
  | DEVICE_CLASS_BATTERY | DEVICE_CLASS_TIMESTAMP

text \<open>
  A \<^verbatim>\<open>SensorTypeItem\<close> is the 5-tuple (sensor type name, unit of measurement, icon,
  device class, products supported); \<open>item0\<close> and \<open>item4\<close> are the subscripts
  \<^verbatim>\<open>sensor_type[0]\<close> and \<^verbatim>\<open>sensor_type[4]\<close>.
\<close>

type_synonym SensorTypeItem =
  "string \<times> unit_of_measurement option \<times> string option \<times> SensorDeviceClass option \<times> string list"

definition item0 :: "SensorTypeItem \<Rightarrow> string" where
  "item0 t = fst t"

definition item4 :: "SensorTypeItem \<Rightarrow> string list" where
  "item4 t = snd (snd (snd (snd t)))"

definition SENSOR_VALUE_PRECISION :: nat where
  "SENSOR_VALUE_PRECISION = 2"

definition ATTR_AIR_QUALITY :: string where
  "ATTR_AIR_QUALITY = ''air_quality''"

definition CANARY_PRO :: string where
  "CANARY_PRO = ''Canary Pro''"

definition CANARY_FLEX :: string where
  "CANARY_FLEX = ''Canary Flex''"

definition CANARY_VIEW :: string where
  "CANARY_VIEW = ''Canary View''"

definition SENSOR_TYPES :: "SensorTypeItem list" where
  "SENSOR_TYPES =
     [(''temperature'', Some TEMP_CELSIUS, None, Some DEVICE_CLASS_TEMPERATURE, [CANARY_PRO]),
      (''humidity'', Some PERCENTAGE, None, Some DEVICE_CLASS_HUMIDITY, [CANARY_PRO]),
      (''air_quality'', None, Some ''mdi:weather-windy'', None, [CANARY_PRO]),
      (''wifi'', Some SIGNAL_STRENGTH_DECIBELS_MILLIWATT, None, Some DEVICE_CLASS_SIGNAL_STRENGTH,
         [CANARY_PRO, CANARY_FLEX, CANARY_VIEW]),
      (''battery'', Some PERCENTAGE, None, Some DEVICE_CLASS_BATTERY, [CANARY_FLEX]),
      (''last_entry_date'', None, Some ''mdi:run-fast'', Some DEVICE_CLASS_TIMESTAMP,
         [CANARY_PRO, CANARY_FLEX]),
      (''entries_captured_today'', None, Some ''mdi:file-video'', None,
         [CANARY_PRO, CANARY_FLEX, CANARY_VIEW])]"

definition STATE_AIR_QUALITY_NORMAL :: string where
  "STATE_AIR_QUALITY_NORMAL = ''normal''"

definition STATE_AIR_QUALITY_ABNORMAL :: string where
  "STATE_AIR_QUALITY_ABNORMAL = ''abnormal''"

definition STATE_AIR_QUALITY_VERY_ABNORMAL :: string where
  "STATE_AIR_QUALITY_VERY_ABNORMAL = ''very_abnormal''"

text \<open>
  The fields of a \<^verbatim>\<open>CanarySensor\<close> that the accessors read: \<^verbatim>\<open>_sensor_type\<close>,
  \<^verbatim>\<open>_device_id\<close>, \<^verbatim>\<open>_canary_type\<close>, \<^verbatim>\<open>_canary_data_type\<close> and the device
  info. (The display name, unique id, unit, device class and icon are copied from the
  arguments and read by no accessor below.)
\<close>

record CanarySensor =
  sen_sensor_type :: SensorTypeItem
  sen_device_id :: int
  sen_canary_type :: "SensorType option"
  sen_canary_data_type :: "string option"
  sen_attr_device_info :: DeviceInfo

text \<open>The \<^verbatim>\<open>if\<close>/\<^verbatim>\<open>elif\<close> chain of \<^verbatim>\<open>CanarySensor.__init__\<close>, in its order.\<close>

definition canary_types_of :: "string \<Rightarrow> SensorType option \<times> string option" where
  "canary_types_of n =
     (if n = ''air_quality'' then (Some AIR_QUALITY, Some ''reading'')
      else if n = ''temperature'' then (Some TEMPERATURE, Some ''reading'')
      else if n = ''humidity'' then (Some HUMIDITY, Some ''reading'')
      else if n = ''wifi'' then (Some WIFI, Some ''reading'')
      else if n = ''battery'' then (Some BATTERY, Some ''reading'')
      else if n = ''last_entry_date'' then (Some DATE_LAST_ENTRY, Some ''entry'')
      else if n = ''entries_captured_today'' then (Some ENTRIES_CAPTURED_TODAY, Some ''entry'')
      else (None, None))"

text \<open>
  \<^verbatim>\<open>CanarySensor.__init__\<close>. The device info is built with
  \<^verbatim>\<open>device.device_type["name"]\<close>, which raises \<open>KeyError\<close> when the key is missing.
\<close>

definition CanarySensor_init ::
  "SensorTypeItem \<Rightarrow> Location \<Rightarrow> Device \<Rightarrow> py_error + CanarySensor" where
  "CanarySensor_init st location device =
     (case map_of (device_type device) ''name'' of
        None \<Rightarrow> Inl KeyError
      | Some model \<Rightarrow>
          Inr \<lparr> sen_sensor_type = st,
                sen_device_id = device_id device,
                sen_canary_type = fst (canary_types_of (item0 st)),
                sen_canary_data_type = snd (canary_types_of (item0 st)),
                sen_attr_device_info = \<lparr> info_model = model, info_name = name device \<rparr> \<rparr>)"

text \<open>
  The property \<^verbatim>\<open>CanarySensor.reading\<close>: a missing device key is caught
  (\<^verbatim>\<open>except KeyError: return None\<close>); the generator yields the values of the readings
  whose \<^verbatim>\<open>sensor_type\<close> equals \<^verbatim>\<open>self._canary_type\<close>, in list order.
\<close>

definition reading :: "Snapshot \<Rightarrow> CanarySensor \<Rightarrow> real option" where
  "reading d s =
     (case readings d (sen_device_id s) of
        None \<Rightarrow> None
      | Some rs \<Rightarrow>
          (case next_or_None
                  [reading_value r. r \<leftarrow> rs, Some (sensor_type r) = sen_canary_type s] of
             None \<Rightarrow> None
           | Some v \<Rightarrow> Some (py_round v SENSOR_VALUE_PRECISION)))"

datatype native = NativeFloat real | NativeInt int | NativeDatetime datetime

text \<open>
  The property \<^verbatim>\<open>CanarySensor.native_value\<close>. \<^verbatim>\<open>except KeyError\<close> and
  \<^verbatim>\<open>except IndexError\<close> both return \<^verbatim>\<open>None\<close>.
\<close>

definition native_value :: "Snapshot \<Rightarrow> CanarySensor \<Rightarrow> native option" where
  "native_value d s =
     (if sen_canary_data_type s = Some ''reading'' then map_option NativeFloat (reading d s)
      else if sen_canary_data_type s = Some ''entry'' then
        (case entries d (sen_device_id s) of
           None \<Rightarrow> None
         | Some entry \<Rightarrow>
             (if item0 (sen_sensor_type s) = ''entries_captured_today''
              then Some (NativeInt (int (length entry)))
              else if item0 (sen_sensor_type s) = ''last_entry_date''
              then (case entry of [] \<Rightarrow> None | e # _ \<Rightarrow> Some (NativeDatetime (start_time e)))
              else None))
      else None)"

text \<open>
  The property \<^verbatim>\<open>CanarySensor.extra_state_attributes\<close>; the returned dictionary is
  the list of its items.
\<close>

definition extra_state_attributes :: "Snapshot \<Rightarrow> CanarySensor \<Rightarrow> (string \<times> string) list option" where
  "extra_state_attributes d s =
     (case reading d s of
        Some r \<Rightarrow>
          (if item0 (sen_sensor_type s) = ''air_quality'' then
             Some [(ATTR_AIR_QUALITY,
                    if r \<le> 4 / 10 then STATE_AIR_QUALITY_VERY_ABNORMAL
                    else if r \<le> 59 / 100 then STATE_AIR_QUALITY_ABNORMAL
                    else STATE_AIR_QUALITY_NORMAL)]
           else None)
      | None \<Rightarrow> None)"

text \<open>
  \<^verbatim>\<open>async_setup_entry\<close> of sensor.py: the three nested loops, appending to
  \<^verbatim>\<open>sensors\<close>. \<^verbatim>\<open>device_type.get("name") in sensor_type[4]\<close> is false when the key is
  missing (\<^verbatim>\<open>None\<close> is in no list of strings).
\<close>

definition supports :: "SensorTypeItem \<Rightarrow> Device \<Rightarrow> bool" where
  "supports st device =
     (case map_of (device_type device) ''name'' of
        None \<Rightarrow> False
      | Some n \<Rightarrow> n \<in> set (item4 st))"

fun sensor_types_loop ::
  "Location \<Rightarrow> Device \<Rightarrow> SensorTypeItem list \<Rightarrow> CanarySensor list \<Rightarrow> py_error + CanarySensor list" where
  "sensor_types_loop location device [] sensors = Inr sensors"
| "sensor_types_loop location device (st # sts) sensors =
     (if supports st device then
        (case CanarySensor_init st location device of
           Inl e \<Rightarrow> Inl e
         | Inr s \<Rightarrow> sensor_types_loop location device sts (sensors @ [s]))
      else sensor_types_loop location device sts sensors)"

fun sensor_devices_loop ::
  "Location \<Rightarrow> Device list \<Rightarrow> CanarySensor list \<Rightarrow> py_error + CanarySensor list" where
  "sensor_devices_loop location [] sensors = Inr sensors"
| "sensor_devices_loop location (device # ds) sensors =
     (if is_online device then
        (case sensor_types_loop location device SENSOR_TYPES sensors of
           Inl e \<Rightarrow> Inl e
         | Inr sensors' \<Rightarrow> sensor_devices_loop location ds sensors')
      else sensor_devices_loop location ds sensors)"

fun sensor_locations_loop ::
  "Location list \<Rightarrow> CanarySensor list \<Rightarrow> py_error + CanarySensor list" where
  "sensor_locations_loop [] sensors = Inr sensors"
| "sensor_locations_loop (location # ls) sensors =
     (case sensor_devices_loop location (devices location) sensors of
        Inl e \<Rightarrow> Inl e
      | Inr sensors' \<Rightarrow> sensor_locations_loop ls sensors')"

definition sensor_async_setup_entry :: "Snapshot \<Rightarrow> py_error + CanarySensor list" where
  "sensor_async_setup_entry d = sensor_locations_loop (map snd (locations d)) []"

subsection \<open>camera.py\<close>

definition MIN_TIME_BETWEEN_SESSION_RENEW :: real where
  "MIN_TIME_BETWEEN_SESSION_RENEW = 90"

record LiveStreamSession =
  live_stream_url :: "string option"

text \<open>
  What the awaited external calls give back. \<open>http_result\<close> is the outcome of
  \<^verbatim>\<open>async_client.get(url, timeout=10)\<close> followed by \<^verbatim>\<open>raise_for_status()\<close>: the
  response content, or one of the three exceptions the code handles.
\<close>

datatype http_result = HttpOk bytes | TimeoutException | RequestError | HTTPStatusError

datatype 'a outcome = Returns 'a | Raises

datatype StreamResponse = StreamResponse string

text \<open>The calls a request makes on its collaborators, in the order it makes them.\<close>

datatype effect =
  HttpGet string
  | GetLiveStreamSession int
  | StartRenewSession
  | FfmpegGetImage string string
  | OpenCamera string string
  | GetReader
  | ProxyStream
  | CloseStream

text \<open>
  The collaborators as one request sees them: the coordinator's snapshot, the clock,
  the HTTP client, the vendor client, the still-image extraction of the transcoding
  helper, and the three steps of an MJPEG stream (\<^verbatim>\<open>open_camera\<close>, \<^verbatim>\<open>get_reader\<close>,
  \<^verbatim>\<open>async_aiohttp_proxy_stream\<close>). Every call but the HTTP GET either returns or
  raises; the source has a handler around the HTTP GET only, so an exception of any
  other call leaves the method that made it.
\<close>

record World =
  coordinator_data :: Snapshot
  utcnow :: real
  http_get :: "string \<Rightarrow> http_result"
  get_live_stream_session :: "Device \<Rightarrow> LiveStreamSession outcome"
  start_renew_session :: "LiveStreamSession \<Rightarrow> unit outcome"
  async_get_image ::
    "string \<Rightarrow> string \<Rightarrow> int option \<Rightarrow> int option \<Rightarrow> bytes option outcome"
  open_camera :: "string \<Rightarrow> string \<Rightarrow> unit outcome"
  get_reader :: "nat outcome"
  async_aiohttp_proxy_stream :: "nat \<Rightarrow> StreamResponse outcome"

text \<open>
  The session state of a \<^verbatim>\<open>CanaryCamera\<close>: field \<open>cam_x\<close> is the attribute
  \<^verbatim>\<open>self._x\<close>. \<open>cam_throttle\<close> is the time of the last renewal that ran, which the
  throttle keeps on the instance.
\<close>

record CanaryCamera =
  cam_ffmpeg_arguments :: string
  cam_location_id :: string
  cam_device :: Device
  cam_live_stream_session :: "LiveStreamSession option"
  cam_attr_name :: string
  cam_attr_device_info :: DeviceInfo
  cam_live_stream_url :: "string option"
  cam_image :: "bytes option"
  cam_last_event :: "Entry option"
  cam_last_image_id :: "int option"
  cam_image_url :: "string option"
  cam_throttle :: "real option"

text \<open>
  \<^verbatim>\<open>CanaryCamera.__init__\<close>; \<^verbatim>\<open>model=device.device_type["name"]\<close> raises
  \<open>KeyError\<close> when the key is missing.
\<close>

definition CanaryCamera_init :: "string \<Rightarrow> Device \<Rightarrow> string \<Rightarrow> py_error + CanaryCamera" where
  "CanaryCamera_init location_id device ffmpeg_args =
     (case map_of (device_type device) ''name'' of
        None \<Rightarrow> Inl KeyError
      | Some model \<Rightarrow>
          Inr \<lparr> cam_ffmpeg_arguments = ffmpeg_args,
                cam_location_id = location_id,
                cam_device = device,
                cam_live_stream_session = None,
                cam_attr_name = name device,
                cam_attr_device_info = \<lparr> info_model = model, info_name = name device \<rparr>,
                cam_live_stream_url = None,
                cam_image = None,
                cam_last_event = None,
                cam_last_image_id = None,
                cam_image_url = None,
                cam_throttle = None \<rparr>)"

text \<open>\<^verbatim>\<open>async_setup_entry\<close> of camera.py: the two nested loops.\<close>

fun camera_devices_loop ::
  "string \<Rightarrow> string \<Rightarrow> Device list \<Rightarrow> CanaryCamera list \<Rightarrow> py_error + CanaryCamera list" where
  "camera_devices_loop location_id ffmpeg_arguments [] cameras = Inr cameras"
| "camera_devices_loop location_id ffmpeg_arguments (device # ds) cameras =
     (if is_online device then
        (case CanaryCamera_init location_id device ffmpeg_arguments of
           Inl e \<Rightarrow> Inl e
         | Inr c \<Rightarrow> camera_devices_loop location_id ffmpeg_arguments ds (cameras @ [c]))
      else camera_devices_loop location_id ffmpeg_arguments ds cameras)"

fun camera_locations_loop ::
  "string \<Rightarrow> (string \<times> Location) list \<Rightarrow> CanaryCamera list \<Rightarrow> py_error + CanaryCamera list" where
  "camera_locations_loop ffmpeg_arguments [] cameras = Inr cameras"
| "camera_locations_loop ffmpeg_arguments ((location_id, location) # ls) cameras =
     (case camera_devices_loop location_id ffmpeg_arguments (devices location) cameras of
        Inl e \<Rightarrow> Inl e
      | Inr cameras' \<Rightarrow> camera_locations_loop ffmpeg_arguments ls cameras')"

definition camera_async_setup_entry :: "Snapshot \<Rightarrow> string \<Rightarrow> py_error + CanaryCamera list" where
  "camera_async_setup_entry d ffmpeg_arguments =
     camera_locations_loop ffmpeg_arguments (locations d) []"

text \<open>
  Lines 198 to 204 of \<^verbatim>\<open>_check_for_new_image\<close>: the cached image is dropped when
  the entry's id is not the id the image came from, and the image URL is read from the
  entry's first thumbnail (\<^verbatim>\<open>except IndexError\<close>: no thumbnail, no URL).
\<close>

definition refresh_image :: "CanaryCamera \<Rightarrow> py_error + CanaryCamera" where
  "refresh_image cam =
     (case cam_last_event cam of
        None \<Rightarrow> Inl AttributeError
      | Some le \<Rightarrow>
          (let cam1 = (if cam_last_image_id cam \<noteq> Some (entry_id le)
                       then cam\<lparr>cam_image := None\<rparr> else cam)
           in Inr (cam1\<lparr>cam_image_url :=
                        (case thumbnails le of [] \<Rightarrow> None | t # _ \<Rightarrow> Some (image_url t))\<rparr>)))"

text \<open>
  \<^verbatim>\<open>CanaryCamera._check_for_new_image\<close>. Both \<^verbatim>\<open>try\<close> blocks catch
  \<open>KeyError\<close> only and return; subscripting an empty entry list with \<^verbatim>\<open>[0]\<close> raises
  \<open>IndexError\<close>, which no handler of the method catches. Every raise happens before
  the first assignment to \<^verbatim>\<open>self\<close>, so \<open>Inl\<close> leaves the camera as it was.
\<close>

definition check_for_new_image :: "Snapshot \<Rightarrow> CanaryCamera \<Rightarrow> py_error + CanaryCamera" where
  "check_for_new_image d cam =
     (case cam_last_event cam of
        None \<Rightarrow>
          (case entries d (device_id (cam_device cam)) of
             None \<Rightarrow> Inr cam
           | Some [] \<Rightarrow> Inl IndexError
           | Some (e # _) \<Rightarrow> refresh_image (cam\<lparr>cam_last_event := Some e\<rparr>))
      | Some le \<Rightarrow>
          (case entries d (device_id (cam_device cam)) of
             None \<Rightarrow> Inr cam
           | Some [] \<Rightarrow> Inl IndexError
           | Some (e # _) \<Rightarrow>
               refresh_image (if entry_id le \<noteq> entry_id e
                              then cam\<lparr>cam_last_event := Some e\<rparr> else cam)))"

text \<open>
  The body of \<^verbatim>\<open>renew_live_stream_session\<close> (lines 234 to 239). The session is
  stored before its keep-alive is started, and the URL after; an exception of the
  vendor client leaves the method at the call that raised.
\<close>

definition renew_session_body ::
  "World \<Rightarrow> CanaryCamera \<Rightarrow> effect list \<times> CanaryCamera \<times> (py_error + unit)" where
  "renew_session_body w cam =
     (case get_live_stream_session w (cam_device cam) of
        Raises \<Rightarrow> ([GetLiveStreamSession (device_id (cam_device cam))], cam, Inl VendorError)
      | Returns session \<Rightarrow>
          (let cam1 = cam\<lparr>cam_live_stream_session := Some session\<rparr>
           in case start_renew_session w session of
                Raises \<Rightarrow>
                  ([GetLiveStreamSession (device_id (cam_device cam)), StartRenewSession],
                   cam1, Inl VendorError)
              | Returns _ \<Rightarrow>
                  ([GetLiveStreamSession (device_id (cam_device cam)), StartRenewSession],
                   cam1\<lparr>cam_live_stream_url := live_stream_url session\<rparr>, Inr ())))"

text \<open>
  Modelled from the spec: the decorator \<^verbatim>\<open>Throttle\<close> of \<^verbatim>\<open>homeassistant.util\<close> is
  not among the sources. The specification calls it a minimum-interval gate that limits
  how often the underlying action executes: a call made within the minimum time of
  the last execution is a no-op that leaves the cached state as it is; any other call
  runs the method and, when the method returns, records the time. (The specification
  does not say what a raising method does to the gate; here it leaves it as it was.)
\<close>

definition Throttle ::
  "real \<Rightarrow> (World \<Rightarrow> CanaryCamera \<Rightarrow> effect list \<times> CanaryCamera \<times> (py_error + unit))
     \<Rightarrow> World \<Rightarrow> CanaryCamera \<Rightarrow> effect list \<times> CanaryCamera \<times> (py_error + unit)" where
  "Throttle min_time method w cam =
     (if (case cam_throttle cam of None \<Rightarrow> False | Some t0 \<Rightarrow> utcnow w - t0 \<le> min_time)
      then ([], cam, Inr ())
      else (case method w cam of
              (fx, cam', Inl e) \<Rightarrow> (fx, cam', Inl e)
            | (fx, cam', Inr _) \<Rightarrow> (fx, cam'\<lparr>cam_throttle := Some (utcnow w)\<rparr>, Inr ())))"

definition renew_live_stream_session ::
  "World \<Rightarrow> CanaryCamera \<Rightarrow> effect list \<times> CanaryCamera \<times> (py_error + unit)" where
  "renew_live_stream_session = Throttle MIN_TIME_BETWEEN_SESSION_RENEW renew_session_body"

text \<open>
  \<^verbatim>\<open>async_camera_image\<close>, lines 141 to 158: the entry's thumbnail is fetched when no
  image is cached and the URL is truthy. The three handlers only log.
\<close>

definition fetch_entry_image :: "World \<Rightarrow> CanaryCamera \<Rightarrow> effect list \<times> CanaryCamera" where
  "fetch_entry_image w cam =
     (if cam_image cam = None \<and> truthy (cam_image_url cam) then
        (let url = the (cam_image_url cam)
         in ([HttpGet url],
             case http_get w url of
               HttpOk content \<Rightarrow>
                 cam\<lparr>cam_image := Some content,
                     cam_last_image_id :=
                       (case cam_last_event cam of None \<Rightarrow> None | Some e \<Rightarrow> Some (entry_id e))\<rparr>
             | TimeoutException \<Rightarrow> cam
             | RequestError \<Rightarrow> cam
             | HTTPStatusError \<Rightarrow> cam))
      else ([], cam))"

text \<open>
  \<^verbatim>\<open>async_camera_image\<close>, lines 160 to 180: the live view, and the returned image.
  Neither the renewal nor the still-image extraction stands in a \<^verbatim>\<open>try\<close>: when one
  of them raises, the request raises.
\<close>

definition grab_live_view ::
  "World \<Rightarrow> int option \<Rightarrow> int option \<Rightarrow> CanaryCamera
     \<Rightarrow> effect list \<times> CanaryCamera \<times> (py_error + bytes option)" where
  "grab_live_view w width height cam =
     (if cam_image cam = None then
        (case renew_live_stream_session w cam of
           (fx, cam1, Inl e) \<Rightarrow> (fx, cam1, Inl e)
         | (fx, cam1, Inr _) \<Rightarrow>
             (if \<not> truthy (cam_live_stream_url cam1) then (fx, cam1, Inr None)
              else if cam_image cam1 = None \<and> truthy (cam_live_stream_url cam1) then
                (let url = the (cam_live_stream_url cam1)
                 in case async_get_image w url (cam_ffmpeg_arguments cam1) width height of
                      Raises \<Rightarrow>
                        (fx @ [FfmpegGetImage url (cam_ffmpeg_arguments cam1)], cam1,
                         Inl FfmpegError)
                    | Returns frame \<Rightarrow>
                        (let cam2 = (if truthy frame then cam1\<lparr>cam_image := frame\<rparr> else cam1)
                         in (fx @ [FfmpegGetImage url (cam_ffmpeg_arguments cam1)], cam2,
                             Inr (cam_image cam2))))
              else (fx, cam1, Inr (cam_image cam1))))
      else ([], cam, Inr (cam_image cam)))"

text \<open>
  \<^verbatim>\<open>CanaryCamera.async_camera_image\<close>: the effects, the camera as the request leaves
  it, and the returned image or the exception. An exception of the check leaves the
  method before anything else runs, with the camera as it was.
\<close>

definition async_camera_image ::
  "World \<Rightarrow> int option \<Rightarrow> int option \<Rightarrow> CanaryCamera
     \<Rightarrow> effect list \<times> CanaryCamera \<times> (py_error + bytes option)" where
  "async_camera_image w width height cam =
     (case check_for_new_image (coordinator_data w) cam of
        Inl e \<Rightarrow> ([], cam, Inl e)
      | Inr cam1 \<Rightarrow>
          (let (fx1, cam2) = fetch_entry_image w cam1;
               (fx2, cam3, result) = grab_live_view w width height cam2
           in (fx1 @ fx2, cam3, result)))"

text \<open>
  \<^verbatim>\<open>CanaryCamera.handle_async_mjpeg_stream\<close>. The renewal and \<^verbatim>\<open>open_camera\<close> are
  awaited before the \<^verbatim>\<open>try\<close>; \<^verbatim>\<open>get_reader\<close> and the proxy run inside it, and the
  \<^verbatim>\<open>finally\<close> clause closes the stream on every way out.
\<close>

definition handle_async_mjpeg_stream ::
  "World \<Rightarrow> CanaryCamera \<Rightarrow> effect list \<times> CanaryCamera \<times> (py_error + StreamResponse option)" where
  "handle_async_mjpeg_stream w cam =
     (case renew_live_stream_session w cam of
        (fx, cam1, Inl e) \<Rightarrow> (fx, cam1, Inl e)
      | (fx, cam1, Inr _) \<Rightarrow>
          (if \<not> truthy (cam_live_stream_url cam1) then (fx, cam1, Inr None)
           else
             (let url = the (cam_live_stream_url cam1);
                  args = cam_ffmpeg_arguments cam1
              in case open_camera w url args of
                   Raises \<Rightarrow> (fx @ [OpenCamera url args], cam1, Inl StreamError)
                 | Returns _ \<Rightarrow>
                     (case get_reader w of
                        Raises \<Rightarrow>
                          (fx @ [OpenCamera url args, GetReader, CloseStream], cam1,
                           Inl StreamError)
                      | Returns stream_reader \<Rightarrow>
                          (case async_aiohttp_proxy_stream w stream_reader of
                             Raises \<Rightarrow>
                               (fx @ [OpenCamera url args, GetReader, ProxyStream, CloseStream],
                                cam1, Inl StreamError)
                           | Returns response \<Rightarrow>
                               (fx @ [OpenCamera url args, GetReader, ProxyStream, CloseStream],
                                cam1, Inr (Some response)))))))"

subsection \<open>Specification-side notions\<close>

text \<open>
  The specification's "first reading matching this metric kind", written with the
  library's \<open>find\<close> rather than with the generator of the source.
\<close>

definition first_matching_reading :: "SensorType \<Rightarrow> Reading list \<Rightarrow> Reading option" where
  "first_matching_reading kind rs = find (\<lambda>r. sensor_type r = kind) rs"

text \<open>All devices of a snapshot, in the order the setup loops visit them.\<close>

definition all_devices :: "Snapshot \<Rightarrow> Device list" where
  "all_devices d = concat (map (\<lambda>(location_id, location). devices location) (locations d))"

text \<open>
  The (location id, device) pairs that get a camera and the (location, device, metric)
  triples that get a sensor, as the specification describes them: every online device
  of every location, and for sensors every metric of the static table whose
  supported-models list holds the device's model name.
\<close>

definition camera_listing :: "Snapshot \<Rightarrow> (string \<times> Device) list" where
  "camera_listing d =
     [(location_id, device). (location_id, location) \<leftarrow> locations d,
        device \<leftarrow> devices location, is_online device]"

definition sensor_listing :: "Snapshot \<Rightarrow> (Location \<times> Device \<times> SensorTypeItem) list" where
  "sensor_listing d =
     [(location, device, st). (location_id, location) \<leftarrow> locations d,
        device \<leftarrow> devices location, is_online device,
        st \<leftarrow> SENSOR_TYPES, supports st device]"

subsection \<open>Sequences of requests\<close>


subsection \<open>Concrete inputs\<close>

definition ex_device :: Device where
  "ex_device = \<lparr> device_id = 20, name = ''Porch'', is_online = True,
                  device_type = [(''id'', ''1''), (''name'', ''Canary Pro'')] \<rparr>"

definition ex_location :: Location where
  "ex_location = \<lparr> location_name = ''Home'', is_recording = False, devices = [ex_device] \<rparr>"

definition ex_entry :: "int \<Rightarrow> string list \<Rightarrow> Entry" where
  "ex_entry i urls = \<lparr> entry_id = i, start_time = 1000 + i,
                        thumbnails = map (\<lambda>u. \<lparr> image_url = u \<rparr>) urls \<rparr>"

text \<open>
  A snapshot with three entries for device 20 and an air-quality reading of \<open>h\<close>
  hundredths behind a
  temperature reading and in front of a second air-quality reading.
\<close>

definition ex_snapshot :: "int \<Rightarrow> Snapshot" where
  "ex_snapshot h =
     \<lparr> locations = [(''loc1'', ex_location)],
       entries = [20 \<mapsto> [ex_entry 3 [''https://img/3''], ex_entry 2 [], ex_entry 1 []]],
       readings = [20 \<mapsto> [\<lparr> sensor_type = TEMPERATURE, reading_value = 21457 / 1000 \<rparr>,
                           \<lparr> sensor_type = AIR_QUALITY, reading_value = of_int h / 100 \<rparr>,
                           \<lparr> sensor_type = AIR_QUALITY, reading_value = 99 / 100 \<rparr>]] \<rparr>"

text \<open>
  A snapshot whose first air-quality reading for device 20 is \<open>m\<close> thousandths, so
  that it need not be a multiple of 1/100.
\<close>

definition ex_air_snapshot :: "int \<Rightarrow> Snapshot" where
  "ex_air_snapshot m =
     \<lparr> locations = [(''loc1'', ex_location)],
       entries = Map.empty,
       readings = [20 \<mapsto> [\<lparr> sensor_type = TEMPERATURE, reading_value = 21457 / 1000 \<rparr>,
                           \<lparr> sensor_type = AIR_QUALITY, reading_value = of_int m / 1000 \<rparr>,
                           \<lparr> sensor_type = AIR_QUALITY, reading_value = 99 / 100 \<rparr>]] \<rparr>"

text \<open>The same snapshot without any reading list or entry list (every device key missing).\<close>

definition ex_snapshot_no_keys :: Snapshot where
  "ex_snapshot_no_keys =
     \<lparr> locations = [(''loc1'', ex_location)], entries = Map.empty, readings = Map.empty \<rparr>"

text \<open>The sensor that \<^verbatim>\<open>CanarySensor(coordinator, SENSOR_TYPES[i], location, device)\<close> builds.\<close>

definition ex_sensor :: "nat \<Rightarrow> CanarySensor" where
  "ex_sensor i =
     \<lparr> sen_sensor_type = SENSOR_TYPES ! i,
       sen_device_id = 20,
       sen_canary_type = fst (canary_types_of (item0 (SENSOR_TYPES ! i))),
       sen_canary_data_type = snd (canary_types_of (item0 (SENSOR_TYPES ! i))),
       sen_attr_device_info = \<lparr> info_model = ''Canary Pro'', info_name = ''Porch'' \<rparr> \<rparr>"

text \<open>
  Devices of the three product models, one of them offline, and a device whose type
  descriptor has no \<^verbatim>\<open>"name"\<close> key.
\<close>

definition ex_device_flex_offline :: Device where
  "ex_device_flex_offline = \<lparr> device_id = 21, name = ''Garden'', is_online = False,
                  device_type = [(''id'', ''2''), (''name'', ''Canary Flex'')] \<rparr>"

definition ex_device_view :: Device where
  "ex_device_view = \<lparr> device_id = 22, name = ''Hall'', is_online = True,
                  device_type = [(''id'', ''3''), (''name'', ''Canary View'')] \<rparr>"

definition ex_device_nameless :: Device where
  "ex_device_nameless = \<lparr> device_id = 23, name = ''Attic'', is_online = True,
                  device_type = [(''id'', ''4'')] \<rparr>"

definition ex_setup_snapshot :: Snapshot where
  "ex_setup_snapshot =
     \<lparr> locations =
         [(''loc1'', \<lparr> location_name = ''Home'', is_recording = False,
                       devices = [ex_device, ex_device_flex_offline] \<rparr>),
          (''loc2'', \<lparr> location_name = ''Cabin'', is_recording = True,
                       devices = [ex_device_view] \<rparr>)],
       entries = Map.empty, readings = Map.empty \<rparr>"

definition ex_nameless_snapshot :: Snapshot where
  "ex_nameless_snapshot =
     \<lparr> locations =
         [(''loc1'', \<lparr> location_name = ''Home'', is_recording = False,
                       devices = [ex_device, ex_device_nameless] \<rparr>)],
       entries = Map.empty, readings = Map.empty \<rparr>"

text \<open>
  The camera that \<^verbatim>\<open>CanaryCamera(hass, coordinator, "loc1", device, "-pred 1")\<close> builds
  for \<open>ex_device\<close>, and a world in which every HTTP GET has the outcome \<open>http\<close>,
  the vendor's session carries the URL \<open>live\<close>, the still-image extraction gives
  \<open>frame\<close>, and every call other than the HTTP GET returns.
\<close>

definition ex_camera :: CanaryCamera where
  "ex_camera =
     \<lparr> cam_ffmpeg_arguments = ''-pred 1'',
       cam_location_id = ''loc1'',
       cam_device = ex_device,
       cam_live_stream_session = None,
       cam_attr_name = ''Porch'',
       cam_attr_device_info = \<lparr> info_model = ''Canary Pro'', info_name = ''Porch'' \<rparr>,
       cam_live_stream_url = None,
       cam_image = None,
       cam_last_event = None,
       cam_last_image_id = None,
       cam_image_url = None,
       cam_throttle = None \<rparr>"

definition ex_world :: "Snapshot \<Rightarrow> real \<Rightarrow> http_result \<Rightarrow> string option \<Rightarrow> bytes option \<Rightarrow> World" where
  "ex_world d t http live frame =
     \<lparr> coordinator_data = d,
       utcnow = t,
       http_get = (\<lambda>url. http),
       get_live_stream_session = (\<lambda>device. Returns \<lparr> live_stream_url = live \<rparr>),
       start_renew_session = (\<lambda>session. Returns ()),
       async_get_image = (\<lambda>url extra_cmd width height. Returns frame),
       open_camera = (\<lambda>url extra_cmd. Returns ()),
       get_reader = Returns 0,
       async_aiohttp_proxy_stream = (\<lambda>stream_reader. Returns (StreamResponse ''multipart/x-mixed-replace'')) \<rparr>"

text \<open>
  The same camera holding the image of entry 2, and the snapshot whose entry list for
  device 20 is \<open>es\<close>.
\<close>

definition ex_camera_cached :: CanaryCamera where
  "ex_camera_cached =
     ex_camera\<lparr>cam_last_event := Some (ex_entry 2 []), cam_image := Some ''JPEG2'',
               cam_last_image_id := Some 2\<rparr>"




section \<open>Properties\<close>

subsection \<open>Auxiliary facts\<close>

lemma ex_sensor_init:
  "CanarySensor_init (SENSOR_TYPES ! i) ex_location ex_device = Inr (ex_sensor i)"
  by (simp add: CanarySensor_init_def ex_device_def ex_sensor_def)

lemma py_round_grid: "\<exists>k::int. py_round x n = of_int k / 10 ^ n"
  unfolding py_round_def Let_def by (auto simp del: of_int_add)

lemma py_round_near: "\<bar>py_round x n - x\<bar> \<le> 1 / (2 * 10 ^ n)"
proof -
  define y where "y = x * 10 ^ n"
  define f where "f = \<lfloor>y\<rfloor>"
  define r where "r = (if y - of_int f < 1 / 2 then of_int f
          else if 1 / 2 < y - of_int f then of_int (f + 1)
          else if even f then of_int f
          else (of_int (f + 1) :: real))"
  have p: "(10::real) ^ n > 0" by simp
  have fl: "of_int f \<le> y" "y < of_int f + 1" unfolding f_def by linarith+
  have h: "\<bar>r - y\<bar> \<le> 1 / 2" unfolding r_def using fl by (auto simp: abs_if)
  have "py_round x n = r / 10 ^ n"
    unfolding py_round_def Let_def r_def f_def y_def by simp
  moreover have "x = y / 10 ^ n" unfolding y_def using p by simp
  ultimately have "\<bar>py_round x n - x\<bar> = \<bar>r - y\<bar> / 10 ^ n"
    by (simp add: diff_divide_distrib[symmetric] del: of_int_add)
  also have "\<dots> \<le> (1 / 2) / 10 ^ n" using h p by (intro divide_right_mono) auto
  finally show ?thesis by simp
qed

lemma next_or_None_find:
  "next_or_None [f r. r \<leftarrow> rs, P r] = map_option f (find P rs)"
  by (induction rs) (simp_all add: next_or_None_def)

lemma canary_types_of_reading:
  "(n, kind) \<in> {(''temperature'', TEMPERATURE), (''humidity'', HUMIDITY),
      (''air_quality'', AIR_QUALITY), (''wifi'', WIFI), (''battery'', BATTERY)}
   \<Longrightarrow> canary_types_of n = (Some kind, Some ''reading'')"
  by (auto simp: canary_types_of_def)

lemma sensor_init_fields:
  assumes "CanarySensor_init st loc dev = Inr s"
  shows "sen_sensor_type s = st" "sen_device_id s = device_id dev"
    "sen_canary_type s = fst (canary_types_of (item0 st))"
    "sen_canary_data_type s = snd (canary_types_of (item0 st))"
  using assms by (auto simp: CanarySensor_init_def split: option.splits)

subsection \<open>Sensor values\<close>

text \<open>
  Claim C5. For a sensor constructed for one of the reading-type metrics
  (temperature, humidity, air_quality, wifi, battery), \<open>native_value\<close> is the value of
  the first reading of the device's reading list whose kind is the metric's, rounded
  to 2 decimal places; it is absent when the device has no reading list in the
  snapshot or the list has no reading of that kind. (\<open>py_round_grid\<close> and
  \<open>py_round_near\<close> say what the rounding is: a multiple of 1/100 at most 1/200 away.)
\<close>

theorem reading_metric_value:
  assumes "CanarySensor_init st loc dev = Inr s"
    and "(item0 st, kind) \<in> {(''temperature'', TEMPERATURE), (''humidity'', HUMIDITY),
      (''air_quality'', AIR_QUALITY), (''wifi'', WIFI), (''battery'', BATTERY)}"
  shows "native_value d s =
     (case readings d (device_id dev) of
        None \<Rightarrow> None
      | Some rs \<Rightarrow>
          (case first_matching_reading kind rs of
             None \<Rightarrow> None
           | Some r \<Rightarrow> Some (NativeFloat (py_round (reading_value r) 2))))"
proof -
  have ct: "canary_types_of (item0 st) = (Some kind, Some ''reading'')"
    using assms(2) by (rule canary_types_of_reading)
  have f: "sen_device_id s = device_id dev" "sen_canary_type s = Some kind"
    "sen_canary_data_type s = Some ''reading''"
    using sensor_init_fields[OF assms(1)] ct by simp_all
  show ?thesis
    by (simp add: native_value_def reading_def f next_or_None_find first_matching_reading_def
        SENSOR_VALUE_PRECISION_def split: option.splits)
qed

theorem reading_metric_value_witness:
  "native_value (ex_snapshot 21) (ex_sensor 2) = Some (NativeFloat (21 / 100))
   \<and> native_value (ex_snapshot 21) (ex_sensor 0) = Some (NativeFloat (2146 / 100))
   \<and> native_value (ex_snapshot 21) (ex_sensor 1) = None
   \<and> native_value ex_snapshot_no_keys (ex_sensor 2) = None"
proof -
  have m: "(item0 (SENSOR_TYPES ! 2), AIR_QUALITY) \<in> {(''temperature'', TEMPERATURE),
      (''humidity'', HUMIDITY), (''air_quality'', AIR_QUALITY), (''wifi'', WIFI),
      (''battery'', BATTERY)}"
    "(item0 (SENSOR_TYPES ! 0), TEMPERATURE) \<in> {(''temperature'', TEMPERATURE),
      (''humidity'', HUMIDITY), (''air_quality'', AIR_QUALITY), (''wifi'', WIFI),
      (''battery'', BATTERY)}"
    "(item0 (SENSOR_TYPES ! 1), HUMIDITY) \<in> {(''temperature'', TEMPERATURE),
      (''humidity'', HUMIDITY), (''air_quality'', AIR_QUALITY), (''wifi'', WIFI),
      (''battery'', BATTERY)}"
    by (simp_all add: SENSOR_TYPES_def item0_def)
  show ?thesis
    using reading_metric_value[OF ex_sensor_init m(1), of "ex_snapshot 21"]
      reading_metric_value[OF ex_sensor_init m(2), of "ex_snapshot 21"]
      reading_metric_value[OF ex_sensor_init m(3), of "ex_snapshot 21"]
      reading_metric_value[OF ex_sensor_init m(1), of ex_snapshot_no_keys]
    by (simp add: ex_snapshot_def ex_snapshot_no_keys_def ex_device_def
        first_matching_reading_def py_round_def Let_def)
qed

text \<open>
  Claim C4. For a sensor constructed for \<open>entries_captured_today\<close>, \<open>native_value\<close>
  is the length of the device's entry list in the snapshot (0 for an empty list) and
  absent when the device key is missing; for a sensor constructed for
  \<open>last_entry_date\<close> it is the start time of the first entry of the list, and absent
  when the list is empty or the device key is missing.
\<close>

theorem entry_metric_value:
  assumes "CanarySensor_init st loc dev = Inr s"
  shows "(item0 st = ''entries_captured_today'' \<longrightarrow>
            native_value d s =
              (case entries d (device_id dev) of
                 None \<Rightarrow> None
               | Some es \<Rightarrow> Some (NativeInt (int (length es)))))
       \<and> (item0 st = ''last_entry_date'' \<longrightarrow>
            native_value d s =
              (case entries d (device_id dev) of
                 None \<Rightarrow> None
               | Some [] \<Rightarrow> None
               | Some (e # _) \<Rightarrow> Some (NativeDatetime (start_time e))))"
  using sensor_init_fields[OF assms]
  by (auto simp: native_value_def canary_types_of_def split: option.splits list.splits)

theorem entry_metric_value_witness:
  "native_value (ex_snapshot 0) (ex_sensor 6) = Some (NativeInt 3)
   \<and> native_value (ex_snapshot 0) (ex_sensor 5) = Some (NativeDatetime 1003)
   \<and> native_value ((ex_snapshot 0)\<lparr>entries := [20 \<mapsto> []]\<rparr>) (ex_sensor 6) = Some (NativeInt 0)
   \<and> native_value ((ex_snapshot 0)\<lparr>entries := [20 \<mapsto> []]\<rparr>) (ex_sensor 5) = None
   \<and> native_value ex_snapshot_no_keys (ex_sensor 6) = None
   \<and> native_value ex_snapshot_no_keys (ex_sensor 5) = None"
proof -
  have n: "item0 (SENSOR_TYPES ! 6) = ''entries_captured_today''"
    "item0 (SENSOR_TYPES ! 5) = ''last_entry_date''"
    by (simp_all add: SENSOR_TYPES_def item0_def)
  show ?thesis
    using entry_metric_value[OF ex_sensor_init, of 6 "ex_snapshot 0"]
      entry_metric_value[OF ex_sensor_init, of 5 "ex_snapshot 0"]
      entry_metric_value[OF ex_sensor_init, of 6 "(ex_snapshot 0)\<lparr>entries := [20 \<mapsto> []]\<rparr>"]
      entry_metric_value[OF ex_sensor_init, of 5 "(ex_snapshot 0)\<lparr>entries := [20 \<mapsto> []]\<rparr>"]
      entry_metric_value[OF ex_sensor_init, of 6 ex_snapshot_no_keys]
      entry_metric_value[OF ex_sensor_init, of 5 ex_snapshot_no_keys]
    by (simp add: n ex_snapshot_def ex_snapshot_no_keys_def ex_device_def ex_entry_def)
qed

text \<open>
  Claim C3. For a sensor constructed for the \<open>air_quality\<close> metric, the extra
  attributes are computed from the snapshot as follows: when the device has a reading
  list and the list has an air-quality reading, they are the single item
  \<open>air_quality\<close> with the band of the first such reading's value rounded to 2
  decimal places: \<open>very_abnormal\<close> if the rounded value is \<open>\<le> 0.40\<close>, else
  \<open>abnormal\<close> if it is \<open>\<le> 0.59\<close>, else (it is \<open>> 0.59\<close>) \<open>normal\<close>. When the
  reading is absent, and for a sensor of any other metric, there are no extra
  attributes.
\<close>

theorem air_quality_band:
  assumes "CanarySensor_init st loc dev = Inr s"
  shows "(item0 st = ''air_quality'' \<longrightarrow>
            extra_state_attributes d s =
              (case readings d (device_id dev) of
                 None \<Rightarrow> None
               | Some rs \<Rightarrow>
                   (case first_matching_reading AIR_QUALITY rs of
                      None \<Rightarrow> None
                    | Some rd \<Rightarrow>
                        Some [(''air_quality'',
                               if py_round (reading_value rd) 2 \<le> 40 / 100 then ''very_abnormal''
                               else if py_round (reading_value rd) 2 \<le> 59 / 100 then ''abnormal''
                               else ''normal'')])))
       \<and> (item0 st \<noteq> ''air_quality'' \<longrightarrow> extra_state_attributes d s = None)"
proof -
  note f = sensor_init_fields[OF assms]
  have a: "item0 st = ''air_quality'' \<Longrightarrow> sen_canary_type s = Some AIR_QUALITY"
    using f(3) by (simp add: canary_types_of_def)
  show ?thesis
    using f(1,2) a
    by (auto simp: extra_state_attributes_def reading_def next_or_None_find
        first_matching_reading_def SENSOR_VALUE_PRECISION_def
        ATTR_AIR_QUALITY_def STATE_AIR_QUALITY_NORMAL_def STATE_AIR_QUALITY_ABNORMAL_def
        STATE_AIR_QUALITY_VERY_ABNORMAL_def split: option.splits)
qed

text \<open>
  The readings 0.404 and 0.594 fall into a band other than the one their unrounded
  values would give: 0.404 rounds to 0.40 and 0.594 to 0.59.
\<close>

theorem air_quality_band_witness:
  "extra_state_attributes (ex_air_snapshot 350) (ex_sensor 2)
     = Some [(''air_quality'', ''very_abnormal'')]
   \<and> extra_state_attributes (ex_air_snapshot 404) (ex_sensor 2)
     = Some [(''air_quality'', ''very_abnormal'')]
   \<and> extra_state_attributes (ex_air_snapshot 406) (ex_sensor 2)
     = Some [(''air_quality'', ''abnormal'')]
   \<and> extra_state_attributes (ex_air_snapshot 500) (ex_sensor 2)
     = Some [(''air_quality'', ''abnormal'')]
   \<and> extra_state_attributes (ex_air_snapshot 594) (ex_sensor 2)
     = Some [(''air_quality'', ''abnormal'')]
   \<and> extra_state_attributes (ex_air_snapshot 596) (ex_sensor 2)
     = Some [(''air_quality'', ''normal'')]
   \<and> extra_state_attributes (ex_air_snapshot 800) (ex_sensor 2)
     = Some [(''air_quality'', ''normal'')]
   \<and> extra_state_attributes ex_snapshot_no_keys (ex_sensor 2) = None
   \<and> extra_state_attributes ((ex_air_snapshot 350)\<lparr>readings := [20 \<mapsto> []]\<rparr>) (ex_sensor 2) = None
   \<and> extra_state_attributes (ex_air_snapshot 350) (ex_sensor 0) = None"
proof -
  have n: "item0 (SENSOR_TYPES ! 2) = ''air_quality''" "item0 (SENSOR_TYPES ! 0) = ''temperature''"
    by (simp_all add: SENSOR_TYPES_def item0_def)
  have d: "device_id ex_device = 20" by (simp add: ex_device_def)
  show ?thesis
    using air_quality_band[OF ex_sensor_init, of 2 "ex_air_snapshot 350"]
      air_quality_band[OF ex_sensor_init, of 2 "ex_air_snapshot 404"]
      air_quality_band[OF ex_sensor_init, of 2 "ex_air_snapshot 406"]
      air_quality_band[OF ex_sensor_init, of 2 "ex_air_snapshot 500"]
      air_quality_band[OF ex_sensor_init, of 2 "ex_air_snapshot 594"]
      air_quality_band[OF ex_sensor_init, of 2 "ex_air_snapshot 596"]
      air_quality_band[OF ex_sensor_init, of 2 "ex_air_snapshot 800"]
      air_quality_band[OF ex_sensor_init, of 2 ex_snapshot_no_keys]
      air_quality_band[OF ex_sensor_init, of 2 "(ex_air_snapshot 350)\<lparr>readings := [20 \<mapsto> []]\<rparr>"]
      air_quality_band[OF ex_sensor_init, of 0 "ex_air_snapshot 350"]
    by (simp add: n d ex_air_snapshot_def ex_snapshot_no_keys_def first_matching_reading_def
        py_round_def Let_def)
qed

subsection \<open>Setup\<close>

lemma camera_devices_loop_ok:
  assumes "\<forall>dev \<in> set ds. is_online dev \<longrightarrow> map_of (device_type dev) ''name'' \<noteq> None"
  shows "\<exists>new. camera_devices_loop lid args ds acc = Inr (acc @ new)
           \<and> list_all2 (\<lambda>c (l, dev). l = lid \<and> CanaryCamera_init l dev args = Inr c) new
                [(lid, dev). dev \<leftarrow> ds, is_online dev]"
  using assms
proof (induction ds arbitrary: acc)
  case Nil
  then show ?case by simp
next
  case (Cons dev ds)
  show ?case
  proof (cases "is_online dev")
    case False
    with Cons show ?thesis by simp
  next
    case True
    with Cons.prems obtain m where m: "map_of (device_type dev) ''name'' = Some m" by auto
    then obtain c where c: "CanaryCamera_init lid dev args = Inr c"
      by (simp add: CanaryCamera_init_def)
    from Cons.IH[of "acc @ [c]"] Cons.prems obtain new where
      n: "camera_devices_loop lid args ds (acc @ [c]) = Inr ((acc @ [c]) @ new)"
      "list_all2 (\<lambda>c (l, dev). l = lid \<and> CanaryCamera_init l dev args = Inr c) new
                [(lid, dev). dev \<leftarrow> ds, is_online dev]"
      by auto
    show ?thesis
      by (rule exI[of _ "c # new"]) (simp add: True c n)
  qed
qed

lemma camera_locations_loop_ok:
  assumes "\<forall>(lid, loc) \<in> set ls. \<forall>dev \<in> set (devices loc).
             is_online dev \<longrightarrow> map_of (device_type dev) ''name'' \<noteq> None"
  shows "\<exists>new. camera_locations_loop args ls acc = Inr (acc @ new)
           \<and> list_all2 (\<lambda>c (l, dev). CanaryCamera_init l dev args = Inr c) new
                [(lid, dev). (lid, loc) \<leftarrow> ls, dev \<leftarrow> devices loc, is_online dev]"
  using assms
proof (induction ls arbitrary: acc)
  case Nil
  then show ?case by simp
next
  case (Cons p ls)
  obtain lid loc where p: "p = (lid, loc)" by (cases p)
  from Cons.prems p have "\<forall>dev \<in> set (devices loc).
             is_online dev \<longrightarrow> map_of (device_type dev) ''name'' \<noteq> None" by auto
  from camera_devices_loop_ok[OF this, of lid args acc] obtain new1 where
    n1: "camera_devices_loop lid args (devices loc) acc = Inr (acc @ new1)"
    "list_all2 (\<lambda>c (l, dev). l = lid \<and> CanaryCamera_init l dev args = Inr c) new1
                [(lid, dev). dev \<leftarrow> devices loc, is_online dev]"
    by blast
  from n1(2) have n1': "list_all2 (\<lambda>c (l, dev). CanaryCamera_init l dev args = Inr c) new1
                [(lid, dev). dev \<leftarrow> devices loc, is_online dev]"
    by (rule list_all2_mono) auto
  from Cons.IH[of "acc @ new1"] Cons.prems obtain new2 where
    n2: "camera_locations_loop args ls (acc @ new1) = Inr ((acc @ new1) @ new2)"
    "list_all2 (\<lambda>c (l, dev). CanaryCamera_init l dev args = Inr c) new2
                [(lid, dev). (lid, loc) \<leftarrow> ls, dev \<leftarrow> devices loc, is_online dev]"
    by auto
  show ?case
    apply (rule exI[of _ "new1 @ new2"])
    using n1(1) n2(1) list_all2_appendI[OF n1' n2(2)]
    by (simp add: p)
qed

lemma supports_init:
  "supports st dev \<Longrightarrow> \<exists>s. CanarySensor_init st loc dev = Inr s
      \<and> info_model (sen_attr_device_info s) \<in> set (item4 st) \<and> sen_sensor_type s = st"
  by (auto simp: supports_def CanarySensor_init_def split: option.splits)

lemma sensor_types_loop_ok:
  "\<exists>new. sensor_types_loop loc dev sts acc = Inr (acc @ new)
       \<and> list_all2 (\<lambda>s (l, dv, st). CanarySensor_init st l dv = Inr s) new
            [(loc, dev, st). st \<leftarrow> sts, supports st dev]"
proof (induction sts arbitrary: acc)
  case Nil
  then show ?case by simp
next
  case (Cons st sts)
  show ?case
  proof (cases "supports st dev")
    case False
    with Cons show ?thesis by simp
  next
    case True
    then obtain s where s: "CanarySensor_init st loc dev = Inr s"
      using supports_init by blast
    from Cons[of "acc @ [s]"] obtain new where
      n: "sensor_types_loop loc dev sts (acc @ [s]) = Inr ((acc @ [s]) @ new)"
      "list_all2 (\<lambda>s (l, dv, st). CanarySensor_init st l dv = Inr s) new
            [(loc, dev, st). st \<leftarrow> sts, supports st dev]"
      by auto
    show ?thesis
      by (rule exI[of _ "s # new"]) (simp add: True s n)
  qed
qed

lemma sensor_devices_loop_ok:
  "\<exists>new. sensor_devices_loop loc ds acc = Inr (acc @ new)
       \<and> list_all2 (\<lambda>s (l, dv, st). CanarySensor_init st l dv = Inr s) new
            [(loc, dev, st). dev \<leftarrow> ds, is_online dev, st \<leftarrow> SENSOR_TYPES, supports st dev]"
proof (induction ds arbitrary: acc)
  case Nil
  then show ?case by simp
next
  case (Cons dev ds)
  show ?case
  proof (cases "is_online dev")
    case False
    with Cons show ?thesis by simp
  next
    case True
    from sensor_types_loop_ok[of loc dev SENSOR_TYPES acc] obtain new1 where
      n1: "sensor_types_loop loc dev SENSOR_TYPES acc = Inr (acc @ new1)"
      "list_all2 (\<lambda>s (l, dv, st). CanarySensor_init st l dv = Inr s) new1
            [(loc, dev, st). st \<leftarrow> SENSOR_TYPES, supports st dev]"
      by blast
    from Cons[of "acc @ new1"] obtain new2 where
      n2: "sensor_devices_loop loc ds (acc @ new1) = Inr ((acc @ new1) @ new2)"
      "list_all2 (\<lambda>s (l, dv, st). CanarySensor_init st l dv = Inr s) new2
            [(loc, dev, st). dev \<leftarrow> ds, is_online dev, st \<leftarrow> SENSOR_TYPES, supports st dev]"
      by auto
    show ?thesis
      apply (rule exI[of _ "new1 @ new2"])
      using n1(1) n2(1) list_all2_appendI[OF n1(2) n2(2)]
      by (simp add: True)
  qed
qed

lemma sensor_locations_loop_ok:
  "\<exists>new. sensor_locations_loop ls acc = Inr (acc @ new)
       \<and> list_all2 (\<lambda>s (l, dv, st). CanarySensor_init st l dv = Inr s) new
            [(loc, dev, st). loc \<leftarrow> ls, dev \<leftarrow> devices loc, is_online dev,
               st \<leftarrow> SENSOR_TYPES, supports st dev]"
proof (induction ls arbitrary: acc)
  case Nil
  then show ?case by simp
next
  case (Cons loc ls)
  from sensor_devices_loop_ok[of loc "devices loc" acc] obtain new1 where
    n1: "sensor_devices_loop loc (devices loc) acc = Inr (acc @ new1)"
    "list_all2 (\<lambda>s (l, dv, st). CanarySensor_init st l dv = Inr s) new1
            [(loc, dev, st). dev \<leftarrow> devices loc, is_online dev, st \<leftarrow> SENSOR_TYPES, supports st dev]"
    by blast
  from Cons[of "acc @ new1"] obtain new2 where
    n2: "sensor_locations_loop ls (acc @ new1) = Inr ((acc @ new1) @ new2)"
    "list_all2 (\<lambda>s (l, dv, st). CanarySensor_init st l dv = Inr s) new2
            [(loc, dev, st). loc \<leftarrow> ls, dev \<leftarrow> devices loc, is_online dev,
               st \<leftarrow> SENSOR_TYPES, supports st dev]"
    by auto
  show ?case
    apply (rule exI[of _ "new1 @ new2"])
    using n1(1) n2(1) list_all2_appendI[OF n1(2) n2(2)]
    by simp
qed

lemma sensor_listing_alt:
  "sensor_listing d = [(loc, dev, st). loc \<leftarrow> map snd (locations d), dev \<leftarrow> devices loc, is_online dev,
               st \<leftarrow> SENSOR_TYPES, supports st dev]"
  unfolding sensor_listing_def
  by (simp add: comp_def case_prod_unfold)

lemma online_pairs: "map snd [(lid, dev). dev \<leftarrow> ds, is_online dev] = filter is_online ds"
  by (induction ds) auto

lemma camera_listing_devices: "map snd (camera_listing d) = filter is_online (all_devices d)"
proof -
  have "map snd [(lid, dev). (lid, loc) \<leftarrow> ls, dev \<leftarrow> devices loc, is_online dev]
      = filter is_online (concat (map (\<lambda>(lid, loc). devices loc) ls))" for ls
  proof (induction ls)
    case Nil
    show ?case by simp
  next
    case (Cons p ls)
    obtain lid loc where p: "p = (lid, loc)" by (cases p)
    from Cons online_pairs[of lid "devices loc"] show ?case by (simp add: p)
  qed
  then show ?thesis by (simp add: camera_listing_def all_devices_def)
qed

lemma sensor_listing_supports:
  "(loc, dev, st) \<in> set (sensor_listing d) \<Longrightarrow> is_online dev \<and> supports st dev \<and> st \<in> set SENSOR_TYPES"
  by (auto simp: sensor_listing_def split: if_splits)

lemma list_all2_map_eq:
  "list_all2 R xs ys \<Longrightarrow> (\<And>x y. R x y \<Longrightarrow> f x = g y) \<Longrightarrow> map f xs = map g ys"
  by (induction rule: list_all2_induct) auto

lemma list_all2_partner:
  "list_all2 R xs ys \<Longrightarrow> x \<in> set xs \<Longrightarrow> \<exists>y \<in> set ys. R x y"
  by (induction rule: list_all2_induct) auto

lemma camera_init_device: "CanaryCamera_init lid dev args = Inr c \<Longrightarrow> cam_device c = dev"
  by (auto simp: CanaryCamera_init_def split: option.splits)

text \<open>
  What the two setup functions do. Sensor setup always succeeds and creates exactly
  one sensor, in order, for each triple of \<open>sensor_listing\<close>: each listed online
  device paired with each metric of \<open>SENSOR_TYPES\<close> whose supported-models list holds
  the device's model name; the model a created sensor records is always listed for
  its metric, so a device whose model is not listed for a metric yields no sensor
  for it. When every online device's type descriptor has a model name, camera setup
  creates exactly one camera, in order, for each listed online device and none for an
  offline one.
\<close>

lemma setup_entities:
  "((\<forall>dev \<in> set (all_devices d). is_online dev \<longrightarrow> map_of (device_type dev) ''name'' \<noteq> None) \<longrightarrow>
      (\<exists>cameras. camera_async_setup_entry d args = Inr cameras
         \<and> list_all2 (\<lambda>c (lid, dev). CanaryCamera_init lid dev args = Inr c) cameras (camera_listing d)
         \<and> map cam_device cameras = filter is_online (all_devices d)))
   \<and> (\<exists>sensors. sensor_async_setup_entry d = Inr sensors
         \<and> list_all2 (\<lambda>s (loc, dev, st). CanarySensor_init st loc dev = Inr s) sensors (sensor_listing d)
         \<and> (\<forall>s \<in> set sensors.
               info_model (sen_attr_device_info s) \<in> set (item4 (sen_sensor_type s))))"
proof (intro conjI impI)
  assume names: "\<forall>dev \<in> set (all_devices d). is_online dev \<longrightarrow> map_of (device_type dev) ''name'' \<noteq> None"
  then have "\<forall>(lid, loc) \<in> set (locations d). \<forall>dev \<in> set (devices loc).
             is_online dev \<longrightarrow> map_of (device_type dev) ''name'' \<noteq> None"
    by (fastforce simp: all_devices_def)
  from camera_locations_loop_ok[OF this, of args "[]"] obtain cameras where
    c: "camera_async_setup_entry d args = Inr cameras"
    "list_all2 (\<lambda>c (lid, dev). CanaryCamera_init lid dev args = Inr c) cameras (camera_listing d)"
    by (auto simp: camera_async_setup_entry_def camera_listing_def)
  have "map cam_device cameras = map snd (camera_listing d)"
    using c(2) by (rule list_all2_map_eq) (auto dest: camera_init_device)
  with c camera_listing_devices
  show "\<exists>cameras. camera_async_setup_entry d args = Inr cameras
         \<and> list_all2 (\<lambda>c (lid, dev). CanaryCamera_init lid dev args = Inr c) cameras (camera_listing d)
         \<and> map cam_device cameras = filter is_online (all_devices d)"
    by auto
next
  from sensor_locations_loop_ok[of "map snd (locations d)" "[]"] obtain sensors where
    s: "sensor_async_setup_entry d = Inr sensors"
    "list_all2 (\<lambda>s (loc, dev, st). CanarySensor_init st loc dev = Inr s) sensors (sensor_listing d)"
    by (auto simp: sensor_async_setup_entry_def sensor_listing_alt)
  have "info_model (sen_attr_device_info x) \<in> set (item4 (sen_sensor_type x))"
    if "x \<in> set sensors" for x
  proof -
    from list_all2_partner[OF s(2) that] obtain loc dev st where
      y: "(loc, dev, st) \<in> set (sensor_listing d)" "CanarySensor_init st loc dev = Inr x"
      by auto
    from sensor_listing_supports[OF y(1)] have "supports st dev" by simp
    from supports_init[OF this, of loc] y(2) show ?thesis by auto
  qed
  with s
  show "\<exists>sensors. sensor_async_setup_entry d = Inr sensors
         \<and> list_all2 (\<lambda>s (loc, dev, st). CanarySensor_init st loc dev = Inr s) sensors (sensor_listing d)
         \<and> (\<forall>s \<in> set sensors.
               info_model (sen_attr_device_info s) \<in> set (item4 (sen_sensor_type s)))"
    by auto
qed


lemma ex_devices_simps:
  "is_online ex_device" "\<not> is_online ex_device_flex_offline" "is_online ex_device_view"
  "map_of (device_type ex_device) ''name'' = Some ''Canary Pro''"
  "map_of (device_type ex_device_view) ''name'' = Some ''Canary View''"
  "device_id ex_device = 20" "device_id ex_device_view = 22"
  by (simp_all add: ex_device_def ex_device_flex_offline_def ex_device_view_def)

lemma setup_entities_example:
  "(\<exists>cameras. camera_async_setup_entry ex_setup_snapshot ''-pred 1'' = Inr cameras
       \<and> map cam_device cameras = [ex_device, ex_device_view])
   \<and> (\<exists>sensors. sensor_async_setup_entry ex_setup_snapshot = Inr sensors
       \<and> map (\<lambda>s. (sen_device_id s, item0 (sen_sensor_type s))) sensors =
           [(20, ''temperature''), (20, ''humidity''), (20, ''air_quality''), (20, ''wifi''),
            (20, ''last_entry_date''), (20, ''entries_captured_today''),
            (22, ''wifi''), (22, ''entries_captured_today'')])"
proof -
  have d: "all_devices ex_setup_snapshot = [ex_device, ex_device_flex_offline, ex_device_view]"
    by (simp add: all_devices_def ex_setup_snapshot_def)
  have h: "\<forall>dev \<in> set (all_devices ex_setup_snapshot).
      is_online dev \<longrightarrow> map_of (device_type dev) ''name'' \<noteq> None"
    by (simp add: d ex_devices_simps)
  have l: "map (\<lambda>(loc, dev, st). (device_id dev, item0 st)) (sensor_listing ex_setup_snapshot) =
           [(20, ''temperature''), (20, ''humidity''), (20, ''air_quality''), (20, ''wifi''),
            (20, ''last_entry_date''), (20, ''entries_captured_today''),
            (22, ''wifi''), (22, ''entries_captured_today'')]"
    by (simp add: sensor_listing_def ex_setup_snapshot_def ex_devices_simps SENSOR_TYPES_def
        supports_def item4_def item0_def CANARY_PRO_def CANARY_FLEX_def CANARY_VIEW_def)
  from setup_entities[of ex_setup_snapshot "''-pred 1''"] h
  obtain cameras sensors where
    c: "camera_async_setup_entry ex_setup_snapshot ''-pred 1'' = Inr cameras"
       "map cam_device cameras = filter is_online (all_devices ex_setup_snapshot)"
    and s: "sensor_async_setup_entry ex_setup_snapshot = Inr sensors"
       "list_all2 (\<lambda>s (loc, dev, st). CanarySensor_init st loc dev = Inr s) sensors
          (sensor_listing ex_setup_snapshot)"
    by blast
  have "map (\<lambda>s. (sen_device_id s, item0 (sen_sensor_type s))) sensors
      = map (\<lambda>(loc, dev, st). (device_id dev, item0 st)) (sensor_listing ex_setup_snapshot)"
    using s(2) by (rule list_all2_map_eq) (auto dest: sensor_init_fields)
  with c s(1) l show ?thesis by (simp add: d ex_devices_simps)
qed

text \<open>
  Claim C6, at the input where the code departs from it: a location with the online
  device \<open>ex_device\<close> and an online device whose type descriptor has no
  \<^verbatim>\<open>"name"\<close> key. The camera constructor subscripts the descriptor and raises
  \<open>KeyError\<close>, which leaves camera setup before any camera is added, also none for
  \<open>ex_device\<close>. Sensor setup reads the name with \<^verbatim>\<open>.get("name")\<close>, skips the
  device without a name and creates the six sensors of \<open>ex_device\<close>.
\<close>

theorem camera_setup_nameless_raises:
  "is_online ex_device \<and> is_online ex_device_nameless
   \<and> all_devices ex_nameless_snapshot = [ex_device, ex_device_nameless]
   \<and> camera_async_setup_entry ex_nameless_snapshot ''-pred 1'' = Inl KeyError
   \<and> map_sum id (map (\<lambda>s. (sen_device_id s, item0 (sen_sensor_type s))))
        (sensor_async_setup_entry ex_nameless_snapshot) =
       Inr [(20, ''temperature''), (20, ''humidity''), (20, ''air_quality''), (20, ''wifi''),
            (20, ''last_entry_date''), (20, ''entries_captured_today'')]"
  by (simp add: all_devices_def ex_nameless_snapshot_def ex_device_nameless_def ex_device_def
      camera_async_setup_entry_def CanaryCamera_init_def sensor_async_setup_entry_def
      CanarySensor_init_def SENSOR_TYPES_def supports_def item4_def item0_def
      CANARY_PRO_def CANARY_FLEX_def CANARY_VIEW_def)

subsection \<open>Camera: the image state\<close>

lemmas ex_defs = ex_camera_def ex_device_def ex_world_def ex_snapshot_def ex_entry_def
  ex_snapshot_no_keys_def

lemmas camera_defs = check_for_new_image_def refresh_image_def fetch_entry_image_def
  grab_live_view_def async_camera_image_def renew_live_stream_session_def Throttle_def
  renew_session_body_def handle_async_mjpeg_stream_def truthy_def
  MIN_TIME_BETWEEN_SESSION_RENEW_def Let_def

lemma ex_camera_init: "CanaryCamera_init ''loc1'' ex_device ''-pred 1'' = Inr ex_camera"
  by (simp add: CanaryCamera_init_def ex_camera_def ex_device_def)

lemma ex_camera_simps:
  "cam_image ex_camera = None" "cam_throttle ex_camera = None"
  "cam_device ex_camera = ex_device" "cam_ffmpeg_arguments ex_camera = ''-pred 1''"
  "device_id ex_device = 20"
  by (simp_all add: ex_camera_def ex_device_def)

lemma ex_check_first:
  "check_for_new_image (ex_snapshot 0) ex_camera =
       Inr (ex_camera\<lparr>cam_last_event := Some (ex_entry 3 [''https://img/3'']),
                      cam_image_url := Some ''https://img/3''\<rparr>)"
  by (simp add: camera_defs ex_defs)

lemma refresh_image_Some:
  "cam_last_event cam = Some le \<Longrightarrow>
   refresh_image cam =
     Inr (cam\<lparr>cam_image := (if cam_last_image_id cam = Some (entry_id le) then cam_image cam else None),
              cam_image_url := (case thumbnails le of [] \<Rightarrow> None | t # _ \<Rightarrow> Some (image_url t))\<rparr>)"
  by (simp add: refresh_image_def Let_def)

lemma check_for_new_image_missing:
  "entries d (device_id (cam_device cam)) = None \<Longrightarrow> check_for_new_image d cam = Inr cam"
  by (simp add: check_for_new_image_def split: option.splits)

lemma check_for_new_image_entry:
  assumes "entries d (device_id (cam_device cam)) = Some (e # es)"
  defines "le \<equiv> (case cam_last_event cam of None \<Rightarrow> e
                   | Some old \<Rightarrow> if entry_id old = entry_id e then old else e)"
  shows "check_for_new_image d cam =
           Inr (cam\<lparr>cam_last_event := Some le,
                    cam_image := (if cam_last_image_id cam = Some (entry_id e)
                                  then cam_image cam else None),
                    cam_image_url := (case thumbnails le of [] \<Rightarrow> None
                                      | t # _ \<Rightarrow> Some (image_url t))\<rparr>)"
    and "entry_id le = entry_id e"
proof -
  show "entry_id le = entry_id e" by (simp add: le_def split: option.splits)
  show "check_for_new_image d cam =
           Inr (cam\<lparr>cam_last_event := Some le,
                    cam_image := (if cam_last_image_id cam = Some (entry_id e)
                                  then cam_image cam else None),
                    cam_image_url := (case thumbnails le of [] \<Rightarrow> None
                                      | t # _ \<Rightarrow> Some (image_url t))\<rparr>)"
  proof (cases "cam_last_event cam")
    case None
    then show ?thesis using assms(1)
      by (simp add: check_for_new_image_def le_def refresh_image_Some)
  next
    case (Some old)
    then show ?thesis using assms(1)
      by (cases "entry_id old = entry_id e")
         (simp_all add: check_for_new_image_def le_def refresh_image_Some)
  qed
qed

text \<open>
  The check raises exactly when the device's entry list is present and empty.
\<close>

lemma check_for_new_image_raises_iff:
  "check_for_new_image d cam = Inl err \<longleftrightarrow>
     entries d (device_id (cam_device cam)) = Some [] \<and> err = IndexError"
proof (cases "entries d (device_id (cam_device cam))")
  case None
  then show ?thesis by (simp add: check_for_new_image_missing)
next
  case (Some l)
  show ?thesis
  proof (cases l)
    case Nil
    with Some show ?thesis by (auto simp: check_for_new_image_def split: option.splits)
  next
    case (Cons e es)
    with Some check_for_new_image_entry(1)[of d cam e es] show ?thesis by simp
  qed
qed

text \<open>
  Claim C1, at the input where the code departs from it: with an empty entry list for
  the device, \<^verbatim>\<open>_check_for_new_image\<close> raises \<open>IndexError\<close> (from either branch), and
  the still-image request raises with it.
\<close>

theorem empty_entry_list_raises:
  "check_for_new_image ((ex_snapshot 0)\<lparr>entries := [20 \<mapsto> []]\<rparr>) ex_camera = Inl IndexError
   \<and> check_for_new_image ((ex_snapshot 0)\<lparr>entries := [20 \<mapsto> []]\<rparr>)
        (ex_camera\<lparr>cam_last_event := Some (ex_entry 3 [''https://img/3''])\<rparr>) = Inl IndexError
   \<and> async_camera_image
        (ex_world ((ex_snapshot 0)\<lparr>entries := [20 \<mapsto> []]\<rparr>) 0 (HttpOk ''JPEG'') None None)
        None None ex_camera = ([], ex_camera, Inl IndexError)"
  by (simp add: check_for_new_image_def async_camera_image_def ex_camera_def ex_device_def
      ex_world_def ex_snapshot_def)

text \<open>
  Claim C2, amended. When the device is missing from the snapshot's entry map, the
  check leaves the session state unchanged. When the device's entry list starts with
  an entry \<open>e\<close>, the check makes the last event an entry with the id of \<open>e\<close> (the
  one it already holds if the id is the same, otherwise \<open>e\<close>); it clears the cached
  image bytes unless the id that produced them is that id (so also when no image was
  recorded before); and it does not clear the cached image URL but sets it to the URL
  of the last event's first thumbnail, \<open>None\<close> only when there is no thumbnail. When
  the check leaves no image and a non-empty URL and the HTTP GET succeeds, the request
  performs exactly that one call, caches the content, records the id of \<open>e\<close> as the
  id that produced it, and returns the content.
\<close>

theorem image_state_update:
  "(entries d (device_id (cam_device cam)) = None \<longrightarrow> check_for_new_image d cam = Inr cam)
   \<and> (\<forall>e es. entries d (device_id (cam_device cam)) = Some (e # es) \<longrightarrow>
        (\<exists>le. le = (case cam_last_event cam of None \<Rightarrow> e
                     | Some old \<Rightarrow> if entry_id old = entry_id e then old else e)
           \<and> entry_id le = entry_id e
           \<and> check_for_new_image d cam =
               Inr (cam\<lparr>cam_last_event := Some le,
                        cam_image := (if cam_last_image_id cam = Some (entry_id e)
                                      then cam_image cam else None),
                        cam_image_url := (case thumbnails le of [] \<Rightarrow> None
                                          | t # _ \<Rightarrow> Some (image_url t))\<rparr>)))
   \<and> (\<forall>e es cam1 url content.
         entries (coordinator_data w) (device_id (cam_device cam)) = Some (e # es)
         \<and> check_for_new_image (coordinator_data w) cam = Inr cam1
         \<and> cam_image cam1 = None \<and> cam_image_url cam1 = Some url \<and> url \<noteq> []
         \<and> http_get w url = HttpOk content \<longrightarrow>
         async_camera_image w width height cam =
           ([HttpGet url],
            cam1\<lparr>cam_image := Some content, cam_last_image_id := Some (entry_id e)\<rparr>,
            Inr (Some content)))"
proof (intro conjI allI impI)
  assume "entries d (device_id (cam_device cam)) = None"
  then show "check_for_new_image d cam = Inr cam" by (rule check_for_new_image_missing)
next
  fix e es
  assume "entries d (device_id (cam_device cam)) = Some (e # es)"
  from check_for_new_image_entry[OF this]
  show "\<exists>le. le = (case cam_last_event cam of None \<Rightarrow> e
                     | Some old \<Rightarrow> if entry_id old = entry_id e then old else e)
           \<and> entry_id le = entry_id e
           \<and> check_for_new_image d cam =
               Inr (cam\<lparr>cam_last_event := Some le,
                        cam_image := (if cam_last_image_id cam = Some (entry_id e)
                                      then cam_image cam else None),
                        cam_image_url := (case thumbnails le of [] \<Rightarrow> None
                                          | t # _ \<Rightarrow> Some (image_url t))\<rparr>)"
    by blast
next
  fix e es cam1 url content
  assume a: "entries (coordinator_data w) (device_id (cam_device cam)) = Some (e # es)
         \<and> check_for_new_image (coordinator_data w) cam = Inr cam1
         \<and> cam_image cam1 = None \<and> cam_image_url cam1 = Some url \<and> url \<noteq> []
         \<and> http_get w url = HttpOk content"
  from a check_for_new_image_entry[of "coordinator_data w" cam e es]
  obtain le where le: "cam_last_event cam1 = Some le" "entry_id le = entry_id e"
    by auto
  have f: "fetch_entry_image w cam1 =
      ([HttpGet url], cam1\<lparr>cam_image := Some content, cam_last_image_id := Some (entry_id e)\<rparr>)"
    using a le by (simp add: fetch_entry_image_def truthy_def)
  have g: "grab_live_view w width height
      (cam1\<lparr>cam_image := Some content, cam_last_image_id := Some (entry_id e)\<rparr>)
      = ([], cam1\<lparr>cam_image := Some content, cam_last_image_id := Some (entry_id e)\<rparr>,
         Inr (Some content))"
    by (simp add: grab_live_view_def)
  show "async_camera_image w width height cam =
           ([HttpGet url],
            cam1\<lparr>cam_image := Some content, cam_last_image_id := Some (entry_id e)\<rparr>,
            Inr (Some content))"
    using a by (simp add: async_camera_image_def f g)
qed

theorem image_state_update_witness:
  "check_for_new_image ex_snapshot_no_keys ex_camera = Inr ex_camera
   \<and> check_for_new_image (ex_snapshot 0) ex_camera_cached =
       Inr (ex_camera_cached\<lparr>cam_last_event := Some (ex_entry 3 [''https://img/3'']),
                             cam_image := None,
                             cam_image_url := Some ''https://img/3''\<rparr>)
   \<and> async_camera_image (ex_world (ex_snapshot 0) 0 (HttpOk ''JPEG3'') None None) None None
         ex_camera =
       ([HttpGet ''https://img/3''],
        ex_camera\<lparr>cam_last_event := Some (ex_entry 3 [''https://img/3'']),
                  cam_image_url := Some ''https://img/3'',
                  cam_image := Some ''JPEG3'',
                  cam_last_image_id := Some 3\<rparr>,
        Inr (Some ''JPEG3''))"
proof -
  let ?w = "ex_world (ex_snapshot 0) 0 (HttpOk ''JPEG3'') None None"
  let ?e = "ex_entry 3 [''https://img/3'']"
  let ?es = "[ex_entry 2 [], ex_entry 1 []]"
  have m: "entries ex_snapshot_no_keys (device_id (cam_device ex_camera)) = None"
    by (simp add: ex_defs)
  have e: "entries (ex_snapshot 0) (device_id (cam_device ex_camera_cached)) = Some (?e # ?es)"
    "entries (coordinator_data ?w) (device_id (cam_device ex_camera)) = Some (?e # ?es)"
    by (simp_all add: ex_defs ex_camera_cached_def)
  have c: "check_for_new_image (coordinator_data ?w) ex_camera =
       Inr (ex_camera\<lparr>cam_last_event := Some ?e, cam_image_url := Some ''https://img/3''\<rparr>)"
    using ex_check_first by (simp add: ex_world_def)
  note t1 = image_state_update[of ex_snapshot_no_keys ex_camera ?w None None]
  note t2 = image_state_update[of "ex_snapshot 0" ex_camera_cached ?w None None]
  note t3 = image_state_update[of "ex_snapshot 0" ex_camera ?w None None]
  from t1 m have p1: "check_for_new_image ex_snapshot_no_keys ex_camera = Inr ex_camera"
    by blast
  from t2 e(1) have p2: "\<exists>le. le = (case cam_last_event ex_camera_cached of None \<Rightarrow> ?e
                     | Some old \<Rightarrow> if entry_id old = entry_id ?e then old else ?e)
           \<and> entry_id le = entry_id ?e
           \<and> check_for_new_image (ex_snapshot 0) ex_camera_cached =
               Inr (ex_camera_cached\<lparr>cam_last_event := Some le,
                        cam_image := (if cam_last_image_id ex_camera_cached = Some (entry_id ?e)
                                      then cam_image ex_camera_cached else None),
                        cam_image_url := (case thumbnails le of [] \<Rightarrow> None
                                          | t # _ \<Rightarrow> Some (image_url t))\<rparr>)"
    by blast
  then have p2': "check_for_new_image (ex_snapshot 0) ex_camera_cached =
       Inr (ex_camera_cached\<lparr>cam_last_event := Some ?e, cam_image := None,
                             cam_image_url := Some ''https://img/3''\<rparr>)"
    by (simp add: ex_camera_cached_def ex_entry_def)
  from t3 have "entries (coordinator_data ?w) (device_id (cam_device ex_camera)) = Some (?e # ?es)
         \<and> check_for_new_image (coordinator_data ?w) ex_camera =
             Inr (ex_camera\<lparr>cam_last_event := Some ?e, cam_image_url := Some ''https://img/3''\<rparr>)
         \<and> cam_image (ex_camera\<lparr>cam_last_event := Some ?e, cam_image_url := Some ''https://img/3''\<rparr>) = None
         \<and> cam_image_url (ex_camera\<lparr>cam_last_event := Some ?e, cam_image_url := Some ''https://img/3''\<rparr>)
             = Some ''https://img/3'' \<and> ''https://img/3'' \<noteq> []
         \<and> http_get ?w ''https://img/3'' = HttpOk ''JPEG3'' \<longrightarrow>
         async_camera_image ?w None None ex_camera =
           ([HttpGet ''https://img/3''],
            ex_camera\<lparr>cam_last_event := Some ?e, cam_image_url := Some ''https://img/3''\<rparr>
                   \<lparr>cam_image := Some ''JPEG3'', cam_last_image_id := Some (entry_id ?e)\<rparr>,
            Inr (Some ''JPEG3''))"
    by blast
  moreover have "cam_image ex_camera = None" "http_get ?w ''https://img/3'' = HttpOk ''JPEG3''"
    "entry_id ?e = 3"
    by (simp_all add: ex_defs)
  ultimately have p3: "async_camera_image ?w None None ex_camera =
           ([HttpGet ''https://img/3''],
            ex_camera\<lparr>cam_last_event := Some ?e, cam_image_url := Some ''https://img/3'',
                      cam_image := Some ''JPEG3'', cam_last_image_id := Some 3\<rparr>,
            Inr (Some ''JPEG3''))"
    using e(2) c by simp
  from p1 p2' p3 show ?thesis by simp
qed

text \<open>
  Claim C2 as first stated says the cached image URL is cleared. On a new camera (no
  image-producing entry recorded) the check sets the URL to the entry's thumbnail.
\<close>

theorem image_state_update_counterexample:
  "cam_last_image_id ex_camera = None
   \<and> cam_image_url ex_camera = None
   \<and> check_for_new_image (ex_snapshot 0) ex_camera =
       Inr (ex_camera\<lparr>cam_last_event := Some (ex_entry 3 [''https://img/3'']),
                      cam_image_url := Some ''https://img/3''\<rparr>)"
  by (simp add: check_for_new_image_def refresh_image_def ex_camera_def ex_device_def
      ex_snapshot_def ex_entry_def)

subsection \<open>Camera: still image and live view\<close>

lemma renew_keeps:
  assumes "renew_live_stream_session w cam = (fx, cam1, r)"
  shows "cam_image cam1 = cam_image cam" "cam_last_event cam1 = cam_last_event cam"
    "cam_last_image_id cam1 = cam_last_image_id cam" "cam_image_url cam1 = cam_image_url cam"
    "cam_device cam1 = cam_device cam" "cam_ffmpeg_arguments cam1 = cam_ffmpeg_arguments cam"
  using assms
  by (auto simp: renew_live_stream_session_def Throttle_def renew_session_body_def Let_def
      split: if_splits outcome.splits)

lemma renew_result:
  assumes "renew_live_stream_session w cam = (fx, cam1, r)"
  shows "r = Inr () \<or> r = Inl VendorError"
  using assms
  by (auto simp: renew_live_stream_session_def Throttle_def renew_session_body_def Let_def
      split: if_splits outcome.splits)


lemma fetch_entry_image_failure:
  assumes "cam_image_url cam = Some url"
    and "http_get w url \<in> {TimeoutException, RequestError, HTTPStatusError}"
  shows "fetch_entry_image w cam = (if cam_image cam = None \<and> url \<noteq> [] then [HttpGet url] else [], cam)"
  using assms by (auto simp: fetch_entry_image_def truthy_def)


text \<open>
  Claim C7, amended. When the thumbnail is fetched (the check left no image and a
  non-empty URL) and the HTTP GET times out or fails with a request or status error,
  that error does not leave the request: the request goes on to the live view on the
  state the check left, and its outcome is the live view's. It returns a null image
  when no live-stream URL is available after the renewal and when the still-image
  extraction gives nothing, and the extracted frame otherwise; it raises exactly when
  the vendor's session renewal or the still-image extraction raises, for which the
  live view has no handler.
\<close>

theorem fetch_failure_falls_through:
  assumes "check_for_new_image (coordinator_data w) cam = Inr cam1"
    and "cam_image cam1 = None" and "cam_image_url cam1 = Some url" and "url \<noteq> []"
    and "http_get w url \<in> {TimeoutException, RequestError, HTTPStatusError}"
  shows "\<exists>fx cam2 r fx0 cam0 r0.
           grab_live_view w width height cam1 = (fx, cam2, r)
         \<and> async_camera_image w width height cam = (HttpGet url # fx, cam2, r)
         \<and> renew_live_stream_session w cam1 = (fx0, cam0, r0)
         \<and> (r0 = Inr () \<and> \<not> truthy (cam_live_stream_url cam0) \<longrightarrow> r = Inr None)
         \<and> (\<forall>live frame. r0 = Inr () \<and> cam_live_stream_url cam0 = Some live
               \<and> async_get_image w live (cam_ffmpeg_arguments cam) width height = Returns frame
               \<and> \<not> truthy frame \<longrightarrow> r = Inr None)
         \<and> (\<forall>live frame. r0 = Inr () \<and> cam_live_stream_url cam0 = Some live \<and> live \<noteq> []
               \<and> async_get_image w live (cam_ffmpeg_arguments cam) width height
                   = Returns (Some frame)
               \<and> frame \<noteq> [] \<longrightarrow> r = Inr (Some frame))
         \<and> ((\<exists>e. r = Inl e) \<longleftrightarrow>
               r0 = Inl VendorError
               \<or> (r0 = Inr ()
                   \<and> (\<exists>live. cam_live_stream_url cam0 = Some live \<and> live \<noteq> []
                         \<and> async_get_image w live (cam_ffmpeg_arguments cam) width height
                             = Raises)))"
proof -
  obtain fx cam2 r where g: "grab_live_view w width height cam1 = (fx, cam2, r)"
    by (cases "grab_live_view w width height cam1")
  obtain fx0 cam0 r0 where r: "renew_live_stream_session w cam1 = (fx0, cam0, r0)"
    by (cases "renew_live_stream_session w cam1")
  have f: "fetch_entry_image w cam1 = ([HttpGet url], cam1)"
    using fetch_entry_image_failure[OF assms(3,5)] assms(2,4) by simp
  have a: "async_camera_image w width height cam = (HttpGet url # fx, cam2, r)"
    by (simp add: async_camera_image_def assms(1) f g)
  have args: "cam_ffmpeg_arguments cam1 = cam_ffmpeg_arguments cam"
    using assms(1)
    by (auto simp: check_for_new_image_def refresh_image_def Let_def
        split: option.splits list.splits if_splits)
  note k = renew_keeps[OF r]
  note v = renew_result[OF r]
  have n1: "r0 = Inr () \<and> \<not> truthy (cam_live_stream_url cam0) \<longrightarrow> r = Inr None"
    using g r by (auto simp: grab_live_view_def assms(2))
  have n2: "\<forall>live frame. r0 = Inr () \<and> cam_live_stream_url cam0 = Some live
               \<and> async_get_image w live (cam_ffmpeg_arguments cam) width height = Returns frame
               \<and> \<not> truthy frame \<longrightarrow> r = Inr None"
    using g r k assms(2) args by (auto simp: grab_live_view_def Let_def split: if_splits)
  have n3: "\<forall>live frame. r0 = Inr () \<and> cam_live_stream_url cam0 = Some live \<and> live \<noteq> []
               \<and> async_get_image w live (cam_ffmpeg_arguments cam) width height
                   = Returns (Some frame)
               \<and> frame \<noteq> [] \<longrightarrow> r = Inr (Some frame)"
    using g r k assms(2) args
    by (auto simp: grab_live_view_def Let_def truthy_def split: if_splits)
  have n4: "(\<exists>e. r = Inl e) \<longleftrightarrow>
               r0 = Inl VendorError
               \<or> (r0 = Inr ()
                   \<and> (\<exists>live. cam_live_stream_url cam0 = Some live \<and> live \<noteq> []
                         \<and> async_get_image w live (cam_ffmpeg_arguments cam) width height
                             = Raises))"
    using g r k v assms(2) args
    by (auto simp: grab_live_view_def Let_def truthy_def
        split: if_splits option.splits outcome.splits)
  from g a r n1 n2 n3 n4 show ?thesis by blast
qed

theorem fetch_failure_falls_through_witness:
  "(\<exists>cam2. async_camera_image (ex_world (ex_snapshot 0) 0 TimeoutException None None) None None
        ex_camera =
      ([HttpGet ''https://img/3'', GetLiveStreamSession 20, StartRenewSession], cam2, Inr None))
   \<and> (\<exists>cam2. async_camera_image
        (ex_world (ex_snapshot 0) 0 HTTPStatusError (Some ''rtsp://live'') (Some ''FRAME'')) None None
        ex_camera =
      ([HttpGet ''https://img/3'', GetLiveStreamSession 20, StartRenewSession,
        FfmpegGetImage ''rtsp://live'' ''-pred 1''], cam2, Inr (Some ''FRAME'')))"
proof -
  let ?w1 = "ex_world (ex_snapshot 0) 0 TimeoutException None None"
  let ?w2 = "ex_world (ex_snapshot 0) 0 HTTPStatusError (Some ''rtsp://live'') (Some ''FRAME'')"
  let ?cam1 = "ex_camera\<lparr>cam_last_event := Some (ex_entry 3 [''https://img/3'']),
                      cam_image_url := Some ''https://img/3''\<rparr>"
  have c: "check_for_new_image (coordinator_data ?w1) ex_camera = Inr ?cam1"
    "check_for_new_image (coordinator_data ?w2) ex_camera = Inr ?cam1"
    using ex_check_first by (simp_all add: ex_world_def)
  have i: "cam_image ?cam1 = None" "cam_image_url ?cam1 = Some ''https://img/3''"
    "''https://img/3'' \<noteq> []"
    by (simp_all add: ex_camera_simps)
  have h: "http_get ?w1 ''https://img/3'' \<in> {TimeoutException, RequestError, HTTPStatusError}"
    "http_get ?w2 ''https://img/3'' \<in> {TimeoutException, RequestError, HTTPStatusError}"
    by (simp_all add: ex_world_def)
  have r: "fst (renew_live_stream_session ?w1 ?cam1) = [GetLiveStreamSession 20, StartRenewSession]"
    "cam_live_stream_url (fst (snd (renew_live_stream_session ?w1 ?cam1))) = None"
    "snd (snd (renew_live_stream_session ?w1 ?cam1)) = Inr ()"
    "fst (renew_live_stream_session ?w2 ?cam1) = [GetLiveStreamSession 20, StartRenewSession]"
    "cam_live_stream_url (fst (snd (renew_live_stream_session ?w2 ?cam1))) = Some ''rtsp://live''"
    "snd (snd (renew_live_stream_session ?w2 ?cam1)) = Inr ()"
    by (simp_all add: camera_defs ex_camera_simps ex_world_def)
  have g: "fst (grab_live_view ?w1 None None ?cam1) = [GetLiveStreamSession 20, StartRenewSession]"
    "fst (grab_live_view ?w2 None None ?cam1) =
       [GetLiveStreamSession 20, StartRenewSession, FfmpegGetImage ''rtsp://live'' ''-pred 1'']"
    by (simp_all add: camera_defs ex_camera_simps ex_world_def)
  have a: "async_get_image ?w2 ''rtsp://live'' (cam_ffmpeg_arguments ex_camera) None None
      = Returns (Some ''FRAME'')"
    by (simp add: ex_world_def)
  from fetch_failure_falls_through[OF c(1) i h(1), of None None] r(1,2,3) g(1)
  have p1: "\<exists>cam2. async_camera_image ?w1 None None ex_camera =
      ([HttpGet ''https://img/3'', GetLiveStreamSession 20, StartRenewSession], cam2, Inr None)"
    by (auto simp: truthy_def)
  from fetch_failure_falls_through[OF c(2) i h(2), of None None] r(4,5,6) g(2) a
  have p2: "\<exists>cam2. async_camera_image ?w2 None None ex_camera =
      ([HttpGet ''https://img/3'', GetLiveStreamSession 20, StartRenewSession,
        FfmpegGetImage ''rtsp://live'' ''-pred 1''], cam2, Inr (Some ''FRAME''))"
    by auto
  from p1 p2 show ?thesis by blast
qed

text \<open>
  Claim C7 as first stated says the request does not raise. After an HTTP timeout the
  request raises when the vendor client raises during the renewal, and when the
  still-image extraction raises.
\<close>

theorem fetch_failure_falls_through_counterexample:
  "async_camera_image
     ((ex_world (ex_snapshot 0) 0 TimeoutException None None)
        \<lparr>get_live_stream_session := (\<lambda>device. Raises)\<rparr>) None None ex_camera =
     ([HttpGet ''https://img/3'', GetLiveStreamSession 20],
      ex_camera\<lparr>cam_last_event := Some (ex_entry 3 [''https://img/3'']),
                cam_image_url := Some ''https://img/3''\<rparr>,
      Inl VendorError)
   \<and> snd (snd (async_camera_image
        ((ex_world (ex_snapshot 0) 0 TimeoutException (Some ''rtsp://live'') None)
           \<lparr>async_get_image := (\<lambda>url extra_cmd width height. Raises)\<rparr>) None None ex_camera))
      = Inl FfmpegError"
  by (simp add: camera_defs ex_defs)





subsection \<open>Camera: session renewal and the MJPEG stream\<close>

text \<open>
  A renewal called more than 90 seconds after the last one that ran runs again.
\<close>

lemma renew_after_min_time:
  assumes "cam_throttle cam = Some t0" and "MIN_TIME_BETWEEN_SESSION_RENEW < utcnow w - t0"
  shows "fst (renew_live_stream_session w cam) \<noteq> []"
  using assms
  by (simp add: renew_live_stream_session_def Throttle_def renew_session_body_def Let_def
      split: outcome.splits prod.splits sum.splits)






end
